theory Spec2Isabelle
  imports Complex_Main
begin

section \<open>Result aggregator: \<open>useGeneratedImages\<close> (hooks/useWebSocket.ts)\<close>

subsection \<open>Data model\<close>

text \<open>
  The status tag of \<open>GeneratedImage\<close>, a union of five string literals in the source.
\<close>

datatype status = starting | processing | succeeded | failed | canceled

text \<open>
  The \<open>metrics\<close> object of a \<open>GeneratedImage\<close>. Both fields are JavaScript numbers that the
  aggregator only carries around.
\<close>

record metrics =
  image_count :: int
  predict_time :: rat

text \<open>
  Interface \<open>GeneratedImage\<close>. Optional fields are options. The fields \<open>error\<close>,
  \<open>note\<close> and \<open>output\<close> of the source are called \<open>img_error\<close>, \<open>img_note\<close> and
  \<open>img_output\<close> here (\<open>note\<close> and \<open>output\<close> are keywords, \<open>error\<close> is also a state
  variable of the connection hook).
\<close>

record GeneratedImage =
  prediction_id :: string
  status :: status
  urls :: "string list"
  img_error :: "string option"
  data_removed :: "bool option"
  img_note :: "string option"
  img_output :: "string list option"
  metrics :: "metrics option"

text \<open>
  The two state variables of the hook: \<open>images\<close> and \<open>firstImageArrivalTime\<close>
  (\<open>number | null\<close>; a timestamp in milliseconds as \<open>Date.now()\<close> returns it).
\<close>

record images_state =
  images :: "GeneratedImage list"
  firstImageArrivalTime :: "nat option"

definition initial_images :: images_state where
  "initial_images = \<lparr>images = [], firstImageArrivalTime = None\<rparr>"

subsection \<open>Operations\<close>

text \<open>
  \<open>Array.prototype.findIndex\<close>: the index of the first element satisfying the predicate;
  the source's \<open>-1\<close> is \<open>None\<close>.
\<close>

fun findIndex :: "('a \<Rightarrow> bool) \<Rightarrow> 'a list \<Rightarrow> nat option" where
  "findIndex P [] = None"
| "findIndex P (x # xs) = (if P x then Some 0 else map_option Suc (findIndex P xs))"

text \<open>
  JavaScript's \<open>!t\<close> for \<open>t : number | null\<close>: true for \<open>null\<close> and for \<open>0\<close>.
\<close>

definition js_not :: "nat option \<Rightarrow> bool" where
  "js_not t = (case t of None \<Rightarrow> True | Some n \<Rightarrow> n = 0)"

text \<open>
  \<open>updateImage\<close>, whose first step computes \<open>existingIndex\<close>. The callback closes over \<open>firstImageArrivalTime\<close> as it was when the
  callback was created; that captured value is the first argument. \<open>now\<close> is what
  \<open>Date.now()\<close> returns during the call. Returning \<open>prevImages\<close> itself leaves the state
  as it is.
\<close>

definition existingIndex :: "GeneratedImage \<Rightarrow> GeneratedImage list \<Rightarrow> nat option" where
  "existingIndex newImage prevImages =
     findIndex (\<lambda>img. prediction_id img = prediction_id newImage) prevImages"

definition updateImage_captured ::
  "nat option \<Rightarrow> nat \<Rightarrow> GeneratedImage \<Rightarrow> images_state \<Rightarrow> images_state" where
  "updateImage_captured captured now newImage st =
     (let prevImages = images st in
      case existingIndex newImage prevImages of
        Some idx \<Rightarrow>
          (let existing = prevImages ! idx in
           if status existing = succeeded \<and> status newImage = succeeded then st
           else st\<lparr>images := prevImages[idx := newImage]\<rparr>)
      | None \<Rightarrow>
          (let newImages = newImage # prevImages in
           if status newImage = succeeded \<and> js_not captured
           then st\<lparr>images := newImages, firstImageArrivalTime := Some now\<rparr>
           else st\<lparr>images := newImages\<rparr>))"

text \<open>
  \<open>updateImage\<close> when the component has re-rendered since the last change of
  \<open>firstImageArrivalTime\<close> (the dependency of the callback), so that the captured value
  is the current one.
\<close>

definition updateImage :: "nat \<Rightarrow> GeneratedImage \<Rightarrow> images_state \<Rightarrow> images_state" where
  "updateImage now newImage st = updateImage_captured (firstImageArrivalTime st) now newImage st"

definition clearImages :: "images_state \<Rightarrow> images_state" where
  "clearImages st = st\<lparr>images := [], firstImageArrivalTime := None\<rparr>"

definition getImagesByStatus :: "status \<Rightarrow> images_state \<Rightarrow> GeneratedImage list" where
  "getImagesByStatus s st = filter (\<lambda>img. status img = s) (images st)"

definition getSucceededImages :: "images_state \<Rightarrow> GeneratedImage list" where
  "getSucceededImages st =
     filter (\<lambda>img. status img = succeeded \<and> length (urls img) > 0) (images st)"

definition totalImages :: "images_state \<Rightarrow> nat" where
  "totalImages st = length (images st)"

definition succeededCount :: "GeneratedImage list \<Rightarrow> nat" where
  "succeededCount imgs = length (filter (\<lambda>img. status img = succeeded) imgs)"

definition processingCount :: "GeneratedImage list \<Rightarrow> nat" where
  "processingCount imgs =
     length (filter (\<lambda>img. status img = processing \<or> status img = starting) imgs)"

definition failedCount :: "GeneratedImage list \<Rightarrow> nat" where
  "failedCount imgs = length (filter (\<lambda>img. status img = failed) imgs)"

text \<open>
  A run of the aggregator: the events arrive one at a time and each is applied to the
  state the previous one left. An event is the value of \<open>firstImageArrivalTime\<close> that the
  \<open>updateImage\<close> callback in the caller's hands has captured, the clock reading at the
  call, and the payload.
\<close>

type_synonym update_event = "nat option \<times> nat \<times> GeneratedImage"

fun applyAll :: "update_event list \<Rightarrow> images_state \<Rightarrow> images_state" where
  "applyAll [] st = st"
| "applyAll ((captured, now, img) # es) st = applyAll es (updateImage_captured captured now img st)"

definition event_ids :: "update_event list \<Rightarrow> string list" where
  "event_ids es = map (\<lambda>ev. prediction_id (snd (snd ev))) es"

text \<open>A payload with the given id, status and urls and no optional field.\<close>

definition mk_image :: "string \<Rightarrow> status \<Rightarrow> string list \<Rightarrow> GeneratedImage" where
  "mk_image pid s us =
     \<lparr>prediction_id = pid, status = s, urls = us, img_error = None, data_removed = None,
      img_note = None, img_output = None, metrics = None\<rparr>"

section \<open>Push-channel client: \<open>useWebSocket\<close> (hooks/useWebSocket.ts)\<close>

subsection \<open>State of the hook and of the platform around it\<close>

type_synonym socket_id = nat
type_synonym timer_id = nat

text \<open>
  A \<open>WebSocket\<close> object made by \<open>connect\<close>. Its four handlers are closures over the
  \<open>jobId\<close> and the \<open>enabled\<close> option of the \<open>connect\<close> call that made it; both are kept
  with the socket. \<open>close_calls\<close> lists the calls of \<open>close\<close> on it, \<open>None\<close> for a call
  without arguments and \<open>Some (code, reason)\<close> otherwise. \<open>closed\<close> says that its close
  event has been delivered.
\<close>

record socket =
  sock_job :: string
  sock_enabled :: bool
  close_calls :: "(nat \<times> string) option list"
  closed :: bool

datatype timer_status = Pending | Fired | Cleared

text \<open>
  A timer made by \<open>setTimeout\<close> in \<open>ws.onclose\<close>: its delay in milliseconds and the
  \<open>jobId\<close> and \<open>enabled\<close> its callback closes over.
\<close>

record timer =
  delay :: nat
  timer_job :: string
  timer_enabled :: bool
  timer_status :: timer_status

text \<open>
  What the hook does to the outside, in order: console output (only the fixed first
  argument of each call is kept) and the calls of the four optional observers.
\<close>

datatype 'm effect =
    Console_log string
  | Console_error string
  | OnMessage 'm
  | OnError
  | OnConnect
  | OnDisconnect

text \<open>
  The state variables \<open>isConnected\<close> and \<open>error\<close>, the three refs, and the sockets and
  timers made so far. A socket or timer is named by its position in its list.
\<close>

record 'm ws_state =
  isConnected :: bool
  error :: "string option"
  wsRef :: "socket_id option"
  reconnectTimeoutRef :: "timer_id option"
  reconnectAttemptsRef :: nat
  sockets :: "socket list"
  timers :: "timer list"
  effects :: "'m effect list"

definition initial_ws :: "'m ws_state" where
  "initial_ws =
     \<lparr>isConnected = False, error = None, wsRef = None, reconnectTimeoutRef = None,
      reconnectAttemptsRef = 0, sockets = [], timers = [], effects = []\<rparr>"

text \<open>
  The platform functions the hook calls and that can throw: the \<open>WebSocket\<close> constructor
  (on the url), \<open>JSON.parse\<close> (\<open>None\<close> when it throws; \<open>'m\<close> is whatever it returns), and
  the \<open>onMessage\<close> observer.
\<close>

record 'm env =
  ctor_throws :: "string \<Rightarrow> bool"
  parse :: "string \<Rightarrow> 'm option"
  onMessage_throws :: "'m \<Rightarrow> bool"

text \<open>
  The values \<open>JSON.parse\<close> returns. An object is the list of its properties, each name
  once.
\<close>

datatype json =
    JNull
  | JBool bool
  | JNumber rat
  | JString string
  | JArray "json list"
  | JObject "(string \<times> json) list"

fun json_field :: "string \<Rightarrow> json \<Rightarrow> json option" where
  "json_field k (JObject kvs) = map_of kvs k"
| "json_field k j = None"

fun is_string :: "json \<Rightarrow> bool" where
  "is_string (JString s) = True"
| "is_string j = False"

fun is_number :: "json \<Rightarrow> bool" where
  "is_number (JNumber n) = True"
| "is_number j = False"

fun is_boolean :: "json \<Rightarrow> bool" where
  "is_boolean (JBool b) = True"
| "is_boolean j = False"

fun is_string_array :: "json \<Rightarrow> bool" where
  "is_string_array (JArray xs) = list_all is_string xs"
| "is_string_array j = False"

text \<open>A property that the interface requires, and one that it marks with \<open>?\<close>.\<close>

definition required :: "string \<Rightarrow> (json \<Rightarrow> bool) \<Rightarrow> json \<Rightarrow> bool" where
  "required k P j = (case json_field k j of Some v \<Rightarrow> P v | None \<Rightarrow> False)"

definition optional :: "string \<Rightarrow> (json \<Rightarrow> bool) \<Rightarrow> json \<Rightarrow> bool" where
  "optional k P j = (case json_field k j of Some v \<Rightarrow> P v | None \<Rightarrow> True)"

text \<open>
  The shapes the interfaces \<open>GeneratedImage\<close> and \<open>WebSocketMessage\<close> of the source
  declare. The declarations are erased when the program runs: nothing in the hook tests
  a value against them.
\<close>

fun is_status :: "json \<Rightarrow> bool" where
  "is_status (JString s) =
     (s = ''starting'' \<or> s = ''processing'' \<or> s = ''succeeded'' \<or> s = ''failed'' \<or>
      s = ''canceled'')"
| "is_status j = False"

definition is_metrics :: "json \<Rightarrow> bool" where
  "is_metrics j = (required ''image_count'' is_number j \<and> required ''predict_time'' is_number j)"

definition is_GeneratedImage :: "json \<Rightarrow> bool" where
  "is_GeneratedImage j =
     (required ''prediction_id'' is_string j \<and>
      required ''status'' is_status j \<and>
      required ''urls'' is_string_array j \<and>
      optional ''error'' is_string j \<and>
      optional ''data_removed'' is_boolean j \<and>
      optional ''note'' is_string j \<and>
      optional ''output'' is_string_array j \<and>
      optional ''metrics'' is_metrics j)"

fun is_message_type :: "json \<Rightarrow> bool" where
  "is_message_type (JString s) = (s = ''prediction_update'' \<or> s = ''pong'' \<or> s = ''error'')"
| "is_message_type j = False"

definition is_WebSocketMessage :: "json \<Rightarrow> bool" where
  "is_WebSocketMessage j = (required ''type'' is_message_type j \<and> required ''data'' is_GeneratedImage j)"

definition maxReconnectAttempts :: nat where
  "maxReconnectAttempts = 5"

definition say :: "'m effect \<Rightarrow> 'm ws_state \<Rightarrow> 'm ws_state" where
  "say e s = s\<lparr>effects := effects s @ [e]\<rparr>"

text \<open>\<open>ws.close(...)\<close> on socket \<open>w\<close>: the call is recorded on the socket.\<close>

definition ws_close :: "socket_id \<Rightarrow> (nat \<times> string) option \<Rightarrow> 'm ws_state \<Rightarrow> 'm ws_state" where
  "ws_close w args s =
     (if w < length (sockets s)
      then s\<lparr>sockets := (sockets s)
             [w := (sockets s ! w)\<lparr>close_calls := close_calls (sockets s ! w) @ [args]\<rparr>]\<rparr>
      else s)"

text \<open>\<open>clearTimeout\<close>: a pending timer is cancelled, any other id is ignored.\<close>

definition clearTimeout :: "timer_id \<Rightarrow> 'm ws_state \<Rightarrow> 'm ws_state" where
  "clearTimeout t s =
     (if t < length (timers s) \<and> timer_status (timers s ! t) = Pending
      then s\<lparr>timers := (timers s)[t := (timers s ! t)\<lparr>timer_status := Cleared\<rparr>]\<rparr>
      else s)"

subsection \<open>\<open>connect\<close>, the handlers it installs, and \<open>disconnect\<close>\<close>

text \<open>
  \<open>connect(jobId)\<close>, up to the installation of the handlers. \<open>enabled\<close> is the option the
  callback closes over. The whole body is in a \<open>try\<close>, and the constructor is the call in
  it that can throw.
\<close>

definition connect :: "'m env \<Rightarrow> bool \<Rightarrow> string \<Rightarrow> 'm ws_state \<Rightarrow> 'm ws_state" where
  "connect env enabled jobId s =
     (if jobId = [] then s
      else if \<not> enabled then s
      else
        let s1 = (case wsRef s of Some w \<Rightarrow> ws_close w None s | None \<Rightarrow> s);
            wsUrl = ''ws://localhost:8000/api/v1/generate/'' @ jobId;
            s2 = say (Console_log ''Connecting to WebSocket:'') s1
        in if ctor_throws env wsUrl
           then (say (Console_error ''Failed to create WebSocket connection:'') s2)
                  \<lparr>error := Some ''Failed to connect''\<rparr>
           else s2\<lparr>sockets := sockets s2 @
                      [\<lparr>sock_job = jobId, sock_enabled = enabled, close_calls = [],
                        closed = False\<rparr>],
                    wsRef := Some (length (sockets s2))\<rparr>)"

text \<open>\<open>ws.onopen\<close>.\<close>

definition ws_onopen :: "'m ws_state \<Rightarrow> 'm ws_state" where
  "ws_onopen s =
     say OnConnect
       ((say (Console_log ''WebSocket connected'') s)
          \<lparr>isConnected := True, error := None, reconnectAttemptsRef := 0\<rparr>)"

text \<open>
  \<open>ws.onmessage\<close> on the text \<open>raw\<close> of the event. The \<open>try\<close> covers \<open>JSON.parse\<close> and the
  call of the observer.
\<close>

definition ws_onmessage :: "'m env \<Rightarrow> string \<Rightarrow> 'm ws_state \<Rightarrow> 'm ws_state" where
  "ws_onmessage env raw s =
     (case parse env raw of
        None \<Rightarrow> say (Console_error ''Failed to parse WebSocket message:'') s
      | Some message \<Rightarrow>
          (let s1 = say (OnMessage message) (say (Console_log ''WebSocket message received:'') s)
           in if onMessage_throws env message
              then say (Console_error ''Failed to parse WebSocket message:'') s1
              else s1))"

text \<open>
  The delay computed in \<open>ws.onclose\<close>, in milliseconds, from the value of the attempt
  counter: \<open>Math.min(1000 * Math.pow(2, k), 30000)\<close>.
\<close>

definition reconnect_delay :: "nat \<Rightarrow> nat" where
  "reconnect_delay k = min (1000 * 2 ^ k) 30000"

text \<open>
  \<open>ws.onclose\<close> of a socket made by \<open>connect(jobId)\<close> under \<open>enabled\<close>, on a close event
  with the given code.
\<close>

definition ws_onclose :: "bool \<Rightarrow> string \<Rightarrow> nat \<Rightarrow> 'm ws_state \<Rightarrow> 'm ws_state" where
  "ws_onclose enabled jobId code s =
     (let s1 = say OnDisconnect
                 ((say (Console_log ''WebSocket closed:'') s)
                    \<lparr>isConnected := False, wsRef := None\<rparr>)
      in if code \<noteq> 1000 \<and> reconnectAttemptsRef s1 < maxReconnectAttempts \<and> enabled
         then
           let d = reconnect_delay (reconnectAttemptsRef s1);
               s2 = say (Console_log ''Attempting to reconnect'') s1
           in s2\<lparr>timers := timers s2 @
                    [\<lparr>delay = d, timer_job = jobId, timer_enabled = enabled,
                      timer_status = Pending\<rparr>],
                  reconnectTimeoutRef := Some (length (timers s2))\<rparr>
         else s1)"

text \<open>The callback given to \<open>setTimeout\<close>.\<close>

definition reconnect_callback :: "'m env \<Rightarrow> bool \<Rightarrow> string \<Rightarrow> 'm ws_state \<Rightarrow> 'm ws_state" where
  "reconnect_callback env enabled jobId s =
     connect env enabled jobId (s\<lparr>reconnectAttemptsRef := reconnectAttemptsRef s + 1\<rparr>)"

text \<open>\<open>ws.onerror\<close>.\<close>

definition ws_onerror :: "'m ws_state \<Rightarrow> 'm ws_state" where
  "ws_onerror s =
     say OnError ((say (Console_error ''WebSocket error:'') s)\<lparr>error := Some ''Connection error''\<rparr>)"

text \<open>\<open>disconnect()\<close>.\<close>

definition disconnect :: "'m ws_state \<Rightarrow> 'm ws_state" where
  "disconnect s =
     (let s1 = (case reconnectTimeoutRef s of Some t \<Rightarrow> clearTimeout t s | None \<Rightarrow> s);
          s2 = (case wsRef s1 of
                  Some w \<Rightarrow> (ws_close w (Some (1000, ''Manual disconnect'')) s1)\<lparr>wsRef := None\<rparr>
                | None \<Rightarrow> s1)
      in s2\<lparr>isConnected := False, error := None\<rparr>)"

subsection \<open>Runs of the client\<close>

text \<open>
  What can happen to the hook: a call of \<open>connect\<close> (with the \<open>enabled\<close> option of the
  render it comes from) or of \<open>disconnect\<close>, an event on a socket, a timer running out.
  The platform delivers events only to a socket that exists and has not had its close
  event, and runs a timer's callback only while the timer is pending.
\<close>

datatype event =
    Call_connect bool string
  | Call_disconnect
  | Ev_open socket_id
  | Ev_message socket_id string
  | Ev_close socket_id nat
  | Ev_error socket_id
  | Ev_timeout timer_id

definition deliverable :: "socket_id \<Rightarrow> 'm ws_state \<Rightarrow> bool" where
  "deliverable i s = (i < length (sockets s) \<and> \<not> closed (sockets s ! i))"

fun step :: "'m env \<Rightarrow> event \<Rightarrow> 'm ws_state \<Rightarrow> 'm ws_state" where
  "step env (Call_connect enabled jobId) s = connect env enabled jobId s"
| "step env Call_disconnect s = disconnect s"
| "step env (Ev_open i) s = (if deliverable i s then ws_onopen s else s)"
| "step env (Ev_message i raw) s = (if deliverable i s then ws_onmessage env raw s else s)"
| "step env (Ev_close i code) s =
     (if deliverable i s
      then ws_onclose (sock_enabled (sockets s ! i)) (sock_job (sockets s ! i)) code
             (s\<lparr>sockets := (sockets s)[i := (sockets s ! i)\<lparr>closed := True\<rparr>]\<rparr>)
      else s)"
| "step env (Ev_error i) s = (if deliverable i s then ws_onerror s else s)"
| "step env (Ev_timeout t) s =
     (if t < length (timers s) \<and> timer_status (timers s ! t) = Pending
      then reconnect_callback env (timer_enabled (timers s ! t)) (timer_job (timers s ! t))
             (s\<lparr>timers := (timers s)[t := (timers s ! t)\<lparr>timer_status := Fired\<rparr>]\<rparr>)
      else s)"

fun run :: "'m env \<Rightarrow> event list \<Rightarrow> 'm ws_state \<Rightarrow> 'm ws_state" where
  "run env [] s = s"
| "run env (e # es) s = run env es (step env e s)"

text \<open>
  A transport is live when it has been made, \<open>close\<close> has not been called on it and its
  close event has not come. \<open>live_sockets\<close> lists the live ones, \<open>pending_timers\<close> the
  timers that will still run out.
\<close>

definition live :: "socket \<Rightarrow> bool" where
  "live sk = (\<not> closed sk \<and> close_calls sk = [])"

definition live_sockets :: "'m ws_state \<Rightarrow> socket_id list" where
  "live_sockets s = filter (\<lambda>i. live (sockets s ! i)) [0..<length (sockets s)]"

definition pending_timers :: "'m ws_state \<Rightarrow> timer_id list" where
  "pending_timers s = filter (\<lambda>t. timer_status (timers s ! t) = Pending) [0..<length (timers s)]"

text \<open>A platform on which the constructor never throws and every text parses.\<close>

definition plain_env :: "string env" where
  "plain_env = \<lparr>ctor_throws = (\<lambda>u. False), parse = (\<lambda>raw. Some raw), onMessage_throws = (\<lambda>m. False)\<rparr>"

section \<open>Closing the channel on completion (components/generation/GenerationConsole.tsx)\<close>

text \<open>
  The state of \<open>GenerationConsole\<close> that its completion effect reads and writes: the state
  variable \<open>expectedImageCount\<close> (a JavaScript number, set from the \<open>num_images\<close> of the
  submitted form) and the connection hook it owns.
\<close>

record 'm console_state =
  expectedImageCount :: int
  ws :: "'m ws_state"

text \<open>
  The body of the effect on \<open>[succeededCount, expectedImageCount, disconnect]\<close>, run on
  the \<open>images\<close> prop of the render.
\<close>

definition completion_effect :: "GeneratedImage list \<Rightarrow> 'm console_state \<Rightarrow> 'm console_state" where
  "completion_effect imgs c =
     (if expectedImageCount c > 0 \<and> int (succeededCount imgs) \<ge> expectedImageCount c
      then c\<lparr>ws := disconnect (say (Console_log ''All images completed successfully. Disconnecting WebSocket.'') (ws c)),
             expectedImageCount := 0\<rparr>
      else c)"

section \<open>Example data\<close>

text \<open>A collection whose only record, for \<open>p1\<close>, has succeeded.\<close>

definition one_done :: images_state where
  "one_done =
     \<lparr>images = [mk_image ''p1'' succeeded [''https://x/1.png'']],
      firstImageArrivalTime = Some 42\<rparr>"

text \<open>
  The life of one item: \<open>starting\<close>, \<open>processing\<close>, \<open>succeeded\<close>, at times 1, 2 and 3,
  through a callback that has captured the unset \<open>firstImageArrivalTime\<close>.
\<close>

definition one_item_lifecycle :: "update_event list" where
  "one_item_lifecycle =
     [(None, 1, mk_image ''p1'' starting []),
      (None, 2, mk_image ''p1'' processing []),
      (None, 3, mk_image ''p1'' succeeded [''https://x/1.png''])]"

text \<open>Two items that are new to the collection.\<close>

definition two_new_items :: "update_event list" where
  "two_new_items =
     [(None, 1, mk_image ''p1'' starting []), (None, 2, mk_image ''p2'' starting [])]"

text \<open>
  A platform that does what \<open>JSON.parse\<close> does on the texts used below: \<open>5\<close> is the
  number 5, \<open>null\<close> is null, and on \<open>not json\<close> it throws.
\<close>

definition json_env :: "json env" where
  "json_env =
     \<lparr>ctor_throws = (\<lambda>u. False),
      parse = (\<lambda>raw. if raw = ''5'' then Some (JNumber 5)
                     else if raw = ''null'' then Some JNull else None),
      onMessage_throws = (\<lambda>m. False)\<rparr>"

text \<open>On that platform, a client whose transport for \<open>job1\<close> is open.\<close>

definition open_json_client :: "json ws_state" where
  "open_json_client = run json_env [Call_connect True ''job1'', Ev_open 0] initial_ws"

text \<open>A client whose transport for \<open>job1\<close> is open.\<close>

definition open_client :: "string ws_state" where
  "open_client = run plain_env [Call_connect True ''job1'', Ev_open 0] initial_ws"

text \<open>
  Six unclean closes in a row: every reconnect that is scheduled runs, and the transport
  it opens closes again with code 1006 before it opens.
\<close>

definition six_unclean_closes :: "event list" where
  "six_unclean_closes =
     [Call_connect True ''job1'',
      Ev_close 0 1006, Ev_timeout 0, Ev_close 1 1006, Ev_timeout 1, Ev_close 2 1006,
      Ev_timeout 2, Ev_close 3 1006, Ev_timeout 3, Ev_close 4 1006, Ev_timeout 4,
      Ev_close 5 1006]"

text \<open>
  \<open>connect\<close> for a second job while the transport of the first is open. The close event
  of the first transport then carries 1005, the code a browser reports after \<open>close()\<close>
  without a status code.
\<close>

definition reentrant_connect :: "event list" where
  "reentrant_connect = [Call_connect True ''job1'', Ev_open 0, Call_connect True ''job2'']"

text \<open>
  A transport drops, a second job is connected while the reconnect for the first is
  pending, the second transport drops too, and then the caller disconnects.
\<close>

definition disconnect_with_two_timers :: "event list" where
  "disconnect_with_two_timers =
     [Call_connect True ''job1'', Ev_close 0 1006, Call_connect True ''job2'',
      Ev_close 1 1006, Call_disconnect]"

section \<open>Properties of the result aggregator\<close>

subsection \<open>Facts about \<open>findIndex\<close> and the ids of a collection\<close>

lemma findIndex_None_iff: "findIndex P xs = None \<longleftrightarrow> (\<forall>x\<in>set xs. \<not> P x)"
  by (induction xs) auto

lemma findIndex_Some_less: "findIndex P xs = Some i \<Longrightarrow> i < length xs"
  by (induction xs arbitrary: i) (auto split: if_splits)

lemma findIndex_Some_sat: "findIndex P xs = Some i \<Longrightarrow> P (xs ! i)"
  by (induction xs arbitrary: i) (auto split: if_splits)

lemma findIndex_update_same:
  "findIndex P xs = Some i \<Longrightarrow> P y \<Longrightarrow> findIndex P (xs[i := y]) = Some i"
  by (induction xs arbitrary: i) (auto split: if_splits)

lemma existingIndex_less: "existingIndex e xs = Some i \<Longrightarrow> i < length xs"
  unfolding existingIndex_def by (rule findIndex_Some_less)

lemma existingIndex_id: "existingIndex e xs = Some i \<Longrightarrow> prediction_id (xs ! i) = prediction_id e"
  unfolding existingIndex_def by (drule findIndex_Some_sat) simp

lemma existingIndex_after_update: "existingIndex e xs = Some i \<Longrightarrow> existingIndex e (xs[i := e]) = Some i"
  unfolding existingIndex_def by (rule findIndex_update_same) simp_all

lemma existingIndex_None_iff: "existingIndex e xs = None \<longleftrightarrow> prediction_id e \<notin> set (map prediction_id xs)"
  unfolding existingIndex_def by (induction xs) auto

lemma ids_after_update:
  assumes "existingIndex e xs = Some i"
  shows "map prediction_id (xs[i := e]) = map prediction_id xs"
proof -
  have "(map prediction_id xs)[i := prediction_id (xs ! i)] = map prediction_id xs"
    using existingIndex_less [OF assms] by (simp add: list_update_same_conv)
  then show ?thesis
    by (simp add: map_update existingIndex_id [OF assms])
qed

lemma ids_updateImage:
  "map prediction_id (images (updateImage_captured captured now e st)) =
     (if prediction_id e \<in> set (map prediction_id (images st))
      then map prediction_id (images st)
      else prediction_id e # map prediction_id (images st))"
proof (cases "existingIndex e (images st)")
  case None
  moreover from None have "prediction_id e \<notin> set (map prediction_id (images st))"
    by (simp add: existingIndex_None_iff)
  ultimately show ?thesis
    by (simp add: updateImage_captured_def Let_def)
next
  case (Some i)
  then have "existingIndex e (images st) \<noteq> None" by simp
  then have "prediction_id e \<in> set (map prediction_id (images st))"
    by (simp add: existingIndex_None_iff)
  with Some show ?thesis
    by (simp add: updateImage_captured_def Let_def ids_after_update)
qed

lemma distinct_ids_applyAll:
  "distinct (map prediction_id (images st)) \<Longrightarrow>
   distinct (map prediction_id (images (applyAll es st)))"
  by (induction es st rule: applyAll.induct) (simp_all add: ids_updateImage)

lemma ids_applyAll_fresh:
  "distinct (event_ids es @ map prediction_id (images st)) \<Longrightarrow>
   map prediction_id (images (applyAll es st)) = rev (event_ids es) @ map prediction_id (images st)"
proof (induction es st rule: applyAll.induct)
  case (1 st)
  then show ?case by (simp add: event_ids_def)
next
  case (2 captured now img es st)
  have fresh: "prediction_id img \<notin> set (map prediction_id (images st))"
    using 2(2) by (auto simp: event_ids_def)
  have ids: "map prediction_id (images (updateImage_captured captured now img st)) =
      prediction_id img # map prediction_id (images st)"
    using fresh by (simp add: ids_updateImage)
  have "distinct (event_ids es @
      map prediction_id (images (updateImage_captured captured now img st)))"
    using 2(2) by (auto simp: ids event_ids_def)
  from 2(1) [OF this] show ?case by (simp add: ids event_ids_def)
qed

text \<open>
  An event for an id that is already in the collection never touches
  \<open>firstImageArrivalTime\<close>, whatever value the callback has captured.
\<close>

lemma update_path_keeps_arrival_time:
  "existingIndex e (images st) = Some i \<Longrightarrow>
   firstImageArrivalTime (updateImage_captured captured now e st) = firstImageArrivalTime st"
  by (simp add: updateImage_captured_def Let_def)

text \<open>
  Once a positive timestamp is latched, a callback that has captured it (\<open>updateImage\<close>
  made by a render after the latch) keeps it.
\<close>

lemma latched_arrival_time_stays:
  "firstImageArrivalTime st = Some t \<Longrightarrow> 0 < t \<Longrightarrow>
   firstImageArrivalTime (updateImage now e st) = Some t"
  by (simp add: updateImage_def updateImage_captured_def Let_def js_not_def split: option.splits)

text \<open>
  A callback that still holds the unset value latches again: the test is on the captured
  value, not on the state.
\<close>

lemma stale_callback_latches_again:
  "firstImageArrivalTime
     (applyAll [(None, 5, mk_image ''p1'' succeeded [''https://x/1.png'']),
                (None, 7, mk_image ''p2'' succeeded [''https://x/2.png''])] initial_images) = Some 7"
  by (simp add: initial_images_def mk_image_def updateImage_captured_def existingIndex_def
      js_not_def Let_def)

subsection \<open>Claims about the aggregator\<close>

text \<open>
  C1, as the specification states it: in a collection whose record for an id has status
  \<open>succeeded\<close>, a further event for that id with another status leaves the record
  unchanged. The code does otherwise: in \<open>one_done\<close> the record of \<open>p1\<close> has succeeded,
  and a late \<open>processing\<close> event for \<open>p1\<close> takes its place.
\<close>

theorem terminal_freeze_counterexample:
  "prediction_id (images one_done ! 0) = ''p1'' \<and>
   status (images one_done ! 0) = succeeded \<and>
   images (updateImage 50 (mk_image ''p1'' processing []) one_done) ! 0 =
     mk_image ''p1'' processing [] \<and>
   images (updateImage 50 (mk_image ''p1'' processing []) one_done) ! 0 \<noteq> images one_done ! 0"
  by (simp add: one_done_def mk_image_def updateImage_def updateImage_captured_def
      existingIndex_def Let_def)

text \<open>
  C1, amended: in a collection whose record for an id has status \<open>succeeded\<close>, a further
  event for that id whose status is not \<open>succeeded\<close> replaces that record by the event's
  payload, at the same position; the other records and \<open>firstImageArrivalTime\<close> stay as
  they are. This holds whatever value of \<open>firstImageArrivalTime\<close> the callback has
  captured.
\<close>

theorem stale_event_replaces_succeeded_record:
  assumes "existingIndex newImage (images st) = Some i"
    and "status (images st ! i) = succeeded"
    and "status newImage \<noteq> succeeded"
  shows "updateImage_captured captured now newImage st =
           st\<lparr>images := (images st)[i := newImage]\<rparr> \<and>
         i < length (images st) \<and>
         images (updateImage_captured captured now newImage st) ! i = newImage"
proof -
  have eq: "updateImage_captured captured now newImage st =
      st\<lparr>images := (images st)[i := newImage]\<rparr>"
    using assms by (simp add: updateImage_captured_def Let_def)
  have less: "i < length (images st)"
    using assms(1) by (rule existingIndex_less)
  from eq less show ?thesis by simp
qed

theorem stale_event_replaces_succeeded_record_witness:
  "existingIndex (mk_image ''p1'' failed []) (images one_done) = Some 0 \<and>
   status (images one_done ! 0) = succeeded \<and>
   status (mk_image ''p1'' failed []) \<noteq> succeeded \<and>
   updateImage 50 (mk_image ''p1'' failed []) one_done =
     \<lparr>images = [mk_image ''p1'' failed []], firstImageArrivalTime = Some 42\<rparr>"
  using stale_event_replaces_succeeded_record
    [of "mk_image ''p1'' failed []" one_done 0 "Some 42" 50]
  by (simp add: one_done_def mk_image_def existingIndex_def updateImage_def)

text \<open>
  C2: \<open>firstImageArrivalTime\<close> is to be latched when a record first reaches
  \<open>succeeded\<close>, also when a record that is already there gets there by an update. The code
  latches it only on the path that inserts a new record: after \<open>starting\<close>,
  \<open>processing\<close>, \<open>succeeded\<close> for one id there is one succeeded record and
  \<open>firstImageArrivalTime\<close> is still unset.
\<close>

theorem first_success_not_latched_on_update:
  "succeededCount (images (applyAll one_item_lifecycle initial_images)) = 1 \<and>
   urls (images (applyAll one_item_lifecycle initial_images) ! 0) = [''https://x/1.png''] \<and>
   firstImageArrivalTime (applyAll one_item_lifecycle initial_images) = None"
  by (simp add: one_item_lifecycle_def initial_images_def mk_image_def
      updateImage_captured_def existingIndex_def succeededCount_def Let_def)

text \<open>
  C5: in a collection whose record for an id has status \<open>succeeded\<close>, another
  \<open>succeeded\<close> event for that id, whatever its payload, returns the state unchanged; and
  applying a \<open>succeeded\<close> event twice, to any state, gives what applying it once gives.
  Both hold whatever the callback has captured at either call.
\<close>

theorem duplicate_succeeded_is_noop:
  "(existingIndex e (images st) = Some i \<and> status (images st ! i) = succeeded \<and>
    status e = succeeded \<longrightarrow> updateImage_captured captured now e st = st) \<and>
   (status e = succeeded \<longrightarrow>
      updateImage_captured captured' now' e (updateImage_captured captured now e st) =
        updateImage_captured captured now e st)"
proof (intro conjI impI)
  assume "existingIndex e (images st) = Some i \<and> status (images st ! i) = succeeded \<and>
    status e = succeeded"
  then show "updateImage_captured captured now e st = st"
    by (simp add: updateImage_captured_def Let_def)
next
  assume s: "status e = succeeded"
  show "updateImage_captured captured' now' e (updateImage_captured captured now e st) =
      updateImage_captured captured now e st"
  proof (cases "existingIndex e (images st)")
    case None
    then show ?thesis using s
      by (simp add: updateImage_captured_def Let_def existingIndex_def)
  next
    case (Some i)
    then show ?thesis
      using s existingIndex_less [OF Some] existingIndex_after_update [OF Some]
      by (simp add: updateImage_captured_def Let_def)
  qed
qed

theorem duplicate_succeeded_is_noop_witness:
  "existingIndex (mk_image ''p1'' succeeded [''https://bogus/2.png'']) (images one_done) = Some 0 \<and>
   status (images one_done ! 0) = succeeded \<and>
   status (mk_image ''p1'' succeeded [''https://bogus/2.png'']) = succeeded \<and>
   updateImage 50 (mk_image ''p1'' succeeded [''https://bogus/2.png'']) one_done = one_done \<and>
   urls (images (updateImage 50 (mk_image ''p1'' succeeded [''https://bogus/2.png'']) one_done) ! 0) =
     [''https://x/1.png'']"
  using duplicate_succeeded_is_noop
    [of "mk_image ''p1'' succeeded [''https://bogus/2.png'']" one_done 0 "Some 42" 50 "Some 42" 51]
  by (simp add: one_done_def mk_image_def existingIndex_def updateImage_def)

text \<open>
  C9: starting from the empty collection, after any sequence of events no two records
  have the same prediction id. When the events have distinct ids, the ids of the final
  collection are those of the events, each once, the most recent first. One event either
  puts its id at the head (a new id) or leaves the sequence of ids as it is (an id that is
  already there).
\<close>

theorem ids_unique_and_none_lost:
  "distinct (map prediction_id (images (applyAll es initial_images))) \<and>
   (distinct (event_ids es) \<longrightarrow>
      map prediction_id (images (applyAll es initial_images)) = rev (event_ids es)) \<and>
   map prediction_id (images (updateImage_captured captured now e st)) =
     (if prediction_id e \<in> set (map prediction_id (images st))
      then map prediction_id (images st)
      else prediction_id e # map prediction_id (images st))"
proof (intro conjI impI)
  show "distinct (map prediction_id (images (applyAll es initial_images)))"
    by (rule distinct_ids_applyAll) (simp add: initial_images_def)
next
  assume "distinct (event_ids es)"
  then have "distinct (event_ids es @ map prediction_id (images initial_images))"
    by (simp add: initial_images_def)
  from ids_applyAll_fresh [OF this]
  show "map prediction_id (images (applyAll es initial_images)) = rev (event_ids es)"
    by (simp add: initial_images_def)
next
  show "map prediction_id (images (updateImage_captured captured now e st)) =
     (if prediction_id e \<in> set (map prediction_id (images st))
      then map prediction_id (images st)
      else prediction_id e # map prediction_id (images st))"
    by (rule ids_updateImage)
qed

theorem ids_unique_and_none_lost_witness:
  "distinct (event_ids two_new_items) \<and>
   map prediction_id (images (applyAll two_new_items initial_images)) = [''p2'', ''p1''] \<and>
   distinct (map prediction_id (images (applyAll one_item_lifecycle initial_images))) \<and>
   map prediction_id (images (updateImage 50 (mk_image ''p1'' failed []) one_done)) = [''p1'']"
  using ids_unique_and_none_lost [of two_new_items "Some 42" 50 "mk_image ''p1'' failed []" one_done]
    ids_unique_and_none_lost [of one_item_lifecycle "Some 42" 50 "mk_image ''p1'' failed []" one_done]
  by (simp add: two_new_items_def event_ids_def mk_image_def one_done_def updateImage_def)


section \<open>Properties of the push-channel client\<close>

lemmas client_defs =
  connect_def disconnect_def ws_onclose_def ws_onopen_def ws_onmessage_def ws_onerror_def
  reconnect_callback_def say_def ws_close_def clearTimeout_def deliverable_def
  maxReconnectAttempts_def reconnect_delay_def

lemmas run_defs =
  client_defs plain_env_def initial_ws_def live_sockets_def live_def pending_timers_def Let_def

subsection \<open>The backoff schedule\<close>

lemma reconnect_delay_below_cap: "k < 5 \<Longrightarrow> reconnect_delay k = 1000 * 2 ^ k"
proof -
  assume "k < 5"
  then have "k = 0 \<or> k = 1 \<or> k = 2 \<or> k = 3 \<or> k = 4" by arith
  then show ?thesis by (auto simp: reconnect_delay_def)
qed

text \<open>
  C3, as the specification states it: the consecutive reconnect delays are 1000, 2000,
  4000, 8000, 16000, 30000, ... ms. On the code a sixth delay is never scheduled: of
  six unclean closes in a row the first five schedule a reconnect, the sixth finds the
  attempt counter at 5 and schedules none, so the cap of 30000 ms is never used.
\<close>

theorem backoff_cap_never_scheduled:
  "map delay (timers (run plain_env six_unclean_closes initial_ws)) =
     [1000, 2000, 4000, 8000, 16000] \<and>
   reconnectAttemptsRef (run plain_env six_unclean_closes initial_ws) = 5 \<and>
   pending_timers (run plain_env six_unclean_closes initial_ws) = []"
  by (simp add: six_unclean_closes_def run_defs)

text \<open>
  C3, amended: after an unclean close (a code other than 1000) with the client enabled and
  the attempt counter at \<open>k < 5\<close>, a reconnect is scheduled after
  \<open>min (1000 * 2 ^ k) 30000 = 1000 * 2 ^ k\<close> milliseconds; the delays for
  \<open>k = 0, ..., 4\<close> are 1000, 2000, 4000, 8000, 16000 ms. With the counter at 5 or more
  no reconnect is scheduled.
\<close>

theorem backoff_schedule_below_ceiling:
  assumes "code \<noteq> 1000"
  shows "(reconnectAttemptsRef s < 5 \<longrightarrow>
            timers (ws_onclose True jobId code s) = timers s @
              [\<lparr>delay = min (1000 * 2 ^ reconnectAttemptsRef s) 30000, timer_job = jobId,
                timer_enabled = True, timer_status = Pending\<rparr>] \<and>
            min (1000 * 2 ^ reconnectAttemptsRef s) 30000 = (1000 * 2 ^ reconnectAttemptsRef s :: nat) \<and>
            reconnectTimeoutRef (ws_onclose True jobId code s) = Some (length (timers s))) \<and>
         (5 \<le> reconnectAttemptsRef s \<longrightarrow>
            timers (ws_onclose True jobId code s) = timers s) \<and>
         [reconnect_delay 0, reconnect_delay 1, reconnect_delay 2, reconnect_delay 3,
          reconnect_delay 4] = [1000, 2000, 4000, 8000, 16000]"
proof (intro conjI impI)
  assume k: "reconnectAttemptsRef s < 5"
  show "timers (ws_onclose True jobId code s) = timers s @
      [\<lparr>delay = min (1000 * 2 ^ reconnectAttemptsRef s) 30000, timer_job = jobId,
        timer_enabled = True, timer_status = Pending\<rparr>]"
    using assms k
    by (simp add: ws_onclose_def say_def Let_def maxReconnectAttempts_def reconnect_delay_def)
  show "min (1000 * 2 ^ reconnectAttemptsRef s) 30000 = (1000 * 2 ^ reconnectAttemptsRef s :: nat)"
    using reconnect_delay_below_cap [OF k] by (simp only: reconnect_delay_def)
  show "reconnectTimeoutRef (ws_onclose True jobId code s) = Some (length (timers s))"
    using assms k
    by (simp add: ws_onclose_def say_def Let_def maxReconnectAttempts_def)
next
  assume "5 \<le> reconnectAttemptsRef s"
  then show "timers (ws_onclose True jobId code s) = timers s"
    by (simp add: ws_onclose_def say_def Let_def maxReconnectAttempts_def)
next
  show "[reconnect_delay 0, reconnect_delay 1, reconnect_delay 2, reconnect_delay 3,
      reconnect_delay 4] = [1000, 2000, 4000, 8000, 16000]"
    by (simp add: reconnect_delay_def)
qed

theorem backoff_schedule_below_ceiling_witness:
  "(1006 :: nat) \<noteq> 1000 \<and>
   timers (ws_onclose True ''job1'' 1006 (initial_ws\<lparr>reconnectAttemptsRef := 2\<rparr> :: string ws_state)) =
     [\<lparr>delay = 4000, timer_job = ''job1'', timer_enabled = True, timer_status = Pending\<rparr>] \<and>
   timers (ws_onclose True ''job1'' 1006 (initial_ws\<lparr>reconnectAttemptsRef := 5\<rparr> :: string ws_state)) = []"
  using backoff_schedule_below_ceiling
      [where code = 1006 and jobId = "''job1''"
         and s = "initial_ws\<lparr>reconnectAttemptsRef := 2\<rparr> :: string ws_state"]
    backoff_schedule_below_ceiling
      [where code = 1006 and jobId = "''job1''"
         and s = "initial_ws\<lparr>reconnectAttemptsRef := 5\<rparr> :: string ws_state"]
  by (simp add: initial_ws_def)

subsection \<open>Clean and unclean closes\<close>

text \<open>
  C6: the handler of a close event that carries the normal-closure code 1000 schedules no
  reconnect, whatever the attempt counter and the \<open>enabled\<close> option are: the timers and
  the timer ref are as before, for the handler itself and for the delivery of the event to
  any socket.
\<close>

theorem clean_close_schedules_nothing:
  "timers (ws_onclose enabled jobId 1000 s) = timers s \<and>
   reconnectTimeoutRef (ws_onclose enabled jobId 1000 s) = reconnectTimeoutRef s \<and>
   timers (step env (Ev_close i 1000) s) = timers s \<and>
   reconnectTimeoutRef (step env (Ev_close i 1000) s) = reconnectTimeoutRef s"
  by (simp add: ws_onclose_def say_def Let_def)

text \<open>
  What a re-entrant \<open>connect\<close> asks of the transport in \<open>wsRef\<close>: a close without a
  status code. And what the handler of any close event does to \<open>wsRef\<close>: it clears it,
  whichever transport it holds.
\<close>

lemma connect_closes_without_code:
  assumes "wsRef s = Some w" and "w < length (sockets s)" and "jobId \<noteq> []"
  shows "close_calls (sockets (connect env True jobId s) ! w) = close_calls (sockets s ! w) @ [None]"
  using assms by (simp add: connect_def ws_close_def say_def Let_def nth_append)

lemma onclose_clears_wsRef: "wsRef (ws_onclose enabled jobId code s) = None"
  by (simp add: ws_onclose_def say_def Let_def)

text \<open>
  C4: \<open>connect\<close> while a transport exists is to close that transport cleanly, so that no
  reconnect is scheduled for it and one live transport remains. The code closes it with
  \<open>close()\<close>, without the code 1000 that \<open>disconnect\<close> passes. When its close event comes
  with code 1005, the handler clears \<open>wsRef\<close>, which by then holds the new transport, and
  schedules a reconnect for the old job; when that timer runs out, \<open>connect\<close> finds
  \<open>wsRef\<close> empty, closes nothing and opens a third transport beside the second.
\<close>

theorem reentrant_connect_reconnects_old_job:
  "close_calls (sockets (run plain_env reentrant_connect initial_ws) ! 0) = [None] \<and>
   live_sockets (run plain_env reentrant_connect initial_ws) = [1] \<and>
   wsRef (run plain_env (reentrant_connect @ [Ev_close 0 1005]) initial_ws) = None \<and>
   pending_timers (run plain_env (reentrant_connect @ [Ev_close 0 1005]) initial_ws) = [0] \<and>
   map timer_job (timers (run plain_env (reentrant_connect @ [Ev_close 0 1005]) initial_ws)) =
     [''job1''] \<and>
   live_sockets (run plain_env (reentrant_connect @ [Ev_close 0 1005, Ev_timeout 0]) initial_ws) =
     [1, 2] \<and>
   map sock_job (sockets (run plain_env (reentrant_connect @ [Ev_close 0 1005, Ev_timeout 0])
     initial_ws)) = [''job1'', ''job2'', ''job1'']"
  by (simp add: reentrant_connect_def run_defs)

subsection \<open>\<open>disconnect\<close>\<close>

lemma disconnect_idempotent: "disconnect (disconnect s) = disconnect s"
proof (cases "reconnectTimeoutRef s")
  case None
  then show ?thesis
    by (cases "wsRef s") (simp_all add: disconnect_def ws_close_def Let_def)
next
  case (Some t)
  then show ?thesis
    by (cases "wsRef s") (simp_all add: disconnect_def ws_close_def clearTimeout_def Let_def)
qed

lemma disconnect_clears_flags:
  "isConnected (disconnect s) = False \<and> error (disconnect s) = None \<and> wsRef (disconnect s) = None"
  by (cases "reconnectTimeoutRef s"; cases "wsRef s")
    (simp_all add: disconnect_def ws_close_def clearTimeout_def Let_def)

lemma disconnect_closes_normally:
  assumes "wsRef s = Some w" and "w < length (sockets s)"
  shows "close_calls (sockets (disconnect s) ! w) =
           close_calls (sockets s ! w) @ [Some (1000, ''Manual disconnect'')]"
  using assms
  by (cases "reconnectTimeoutRef s")
    (simp_all add: disconnect_def ws_close_def clearTimeout_def Let_def)

lemma disconnect_cancels_recorded_timer:
  assumes "reconnectTimeoutRef s = Some t" and "t < length (timers s)"
  shows "timer_status (timers (disconnect s) ! t) \<noteq> Pending"
  using assms
  by (cases "wsRef s") (simp_all add: disconnect_def ws_close_def clearTimeout_def Let_def)

text \<open>
  C7: after \<open>disconnect()\<close> no reconnect is to run. The code cancels the timer held in
  \<open>reconnectTimeoutRef\<close>, which is the one scheduled last; a timer scheduled before it
  stays. Here the reconnect for \<open>job1\<close> is pending when \<open>job2\<close> is connected, the
  transport of \<open>job2\<close> drops and overwrites the ref with its own timer, and
  \<open>disconnect\<close> cancels that one. The timer of \<open>job1\<close> is still pending after
  \<open>disconnect\<close>, and when it runs out a transport for \<open>job1\<close> is opened.
\<close>

theorem disconnect_leaves_older_timer:
  "pending_timers (run plain_env disconnect_with_two_timers initial_ws) = [0] \<and>
   map timer_status (timers (run plain_env disconnect_with_two_timers initial_ws)) =
     [Pending, Cleared] \<and>
   live_sockets (run plain_env disconnect_with_two_timers initial_ws) = [] \<and>
   live_sockets (run plain_env (disconnect_with_two_timers @ [Ev_timeout 0]) initial_ws) = [2] \<and>
   map sock_job (sockets (run plain_env (disconnect_with_two_timers @ [Ev_timeout 0]) initial_ws)) =
     [''job1'', ''job2'', ''job1''] \<and>
   wsRef (run plain_env (disconnect_with_two_timers @ [Ev_timeout 0]) initial_ws) = Some 2"
  by (simp add: disconnect_with_two_timers_def run_defs)

subsection \<open>Inbound messages\<close>

text \<open>
  C8, as the specification states it: for an inbound message that does not parse as a
  \<open>WebSocketMessage\<close> the \<open>onMessage\<close> observer is not called. The code calls it: the
  text \<open>5\<close> parses, to a number, which is no \<open>WebSocketMessage\<close>, and the handler hands
  that number to the observer. Nothing is logged as a failure.
\<close>

theorem unvalidated_message_reaches_observer:
  "parse json_env ''5'' = Some (JNumber 5) \<and>
   \<not> is_WebSocketMessage (JNumber 5) \<and>
   effects (step json_env (Ev_message 0 ''5'') open_json_client) =
     effects open_json_client @
       [Console_log ''WebSocket message received:'', OnMessage (JNumber 5)]"
  by (simp add: json_env_def open_json_client_def is_WebSocketMessage_def required_def run_defs)

text \<open>
  C8, amended: when \<open>JSON.parse\<close> throws on the text of an inbound message, the handler
  logs the failure with \<open>console.error\<close> and does nothing else, so the \<open>onMessage\<close>
  observer is not called. When the text parses, the value is handed to the observer
  whatever its shape, and an exception of the observer is logged in the same way. In
  every case the connection stays as it is: \<open>error\<close>, \<open>isConnected\<close>, \<open>wsRef\<close>, the
  transports and the timers are unchanged.
\<close>

theorem decode_failure_is_logged_and_dropped:
  "(parse env raw = None \<longrightarrow>
      ws_onmessage env raw s =
        s\<lparr>effects := effects s @ [Console_error ''Failed to parse WebSocket message:'']\<rparr>) \<and>
   (parse env raw = Some m \<longrightarrow>
      effects (ws_onmessage env raw s) =
        effects s @ [Console_log ''WebSocket message received:'', OnMessage m] @
          (if onMessage_throws env m
           then [Console_error ''Failed to parse WebSocket message:''] else [])) \<and>
   error (ws_onmessage env raw s) = error s \<and>
   isConnected (ws_onmessage env raw s) = isConnected s \<and>
   wsRef (ws_onmessage env raw s) = wsRef s \<and>
   sockets (ws_onmessage env raw s) = sockets s \<and>
   timers (ws_onmessage env raw s) = timers s"
proof (cases "parse env raw")
  case None
  then show ?thesis by (simp add: ws_onmessage_def say_def)
next
  case (Some v)
  then show ?thesis by (simp add: ws_onmessage_def say_def Let_def)
qed

theorem decode_failure_is_logged_and_dropped_witness:
  "parse json_env ''not json'' = None \<and>
   effects (ws_onmessage json_env ''not json'' open_json_client) =
     effects open_json_client @ [Console_error ''Failed to parse WebSocket message:''] \<and>
   parse json_env ''null'' = Some JNull \<and>
   effects (ws_onmessage json_env ''null'' open_json_client) =
     effects open_json_client @ [Console_log ''WebSocket message received:'', OnMessage JNull] \<and>
   isConnected (ws_onmessage json_env ''not json'' open_json_client) = True \<and>
   error (ws_onmessage json_env ''not json'' open_json_client) = None \<and>
   live_sockets (ws_onmessage json_env ''not json'' open_json_client) = [0]"
  using decode_failure_is_logged_and_dropped [of json_env "''not json''" open_json_client JNull]
    decode_failure_is_logged_and_dropped [of json_env "''null''" open_json_client JNull]
  by (simp add: json_env_def open_json_client_def run_defs)

subsection \<open>Closing the channel on completion\<close>

text \<open>
  C10: when \<open>expectedImageCount\<close> is positive and the number of succeeded records has
  reached it, the effect calls \<open>disconnect()\<close>, which closes the transport held in
  \<open>wsRef\<close> with code 1000, and sets \<open>expectedImageCount\<close> to 0; a later run of the effect,
  on any images, then changes nothing, so \<open>disconnect\<close> is called once.
\<close>

theorem completion_disconnects_once:
  assumes "0 < expectedImageCount c"
    and "expectedImageCount c \<le> int (succeededCount imgs)"
  shows "ws (completion_effect imgs c) =
           disconnect (say (Console_log ''All images completed successfully. Disconnecting WebSocket.'') (ws c)) \<and>
         expectedImageCount (completion_effect imgs c) = 0 \<and>
         completion_effect imgs' (completion_effect imgs c) = completion_effect imgs c \<and>
         (wsRef (ws c) = Some w \<and> w < length (sockets (ws c)) \<longrightarrow>
            close_calls (sockets (ws (completion_effect imgs c)) ! w) =
              close_calls (sockets (ws c) ! w) @ [Some (1000, ''Manual disconnect'')])"
proof (intro conjI impI)
  show eq: "ws (completion_effect imgs c) =
      disconnect (say (Console_log ''All images completed successfully. Disconnecting WebSocket.'') (ws c))"
    using assms by (simp add: completion_effect_def)
  show "expectedImageCount (completion_effect imgs c) = 0"
    using assms by (simp add: completion_effect_def)
  then show "completion_effect imgs' (completion_effect imgs c) = completion_effect imgs c"
    by (simp add: completion_effect_def [of imgs'])
  assume "wsRef (ws c) = Some w \<and> w < length (sockets (ws c))"
  then have "wsRef (say (Console_log ''All images completed successfully. Disconnecting WebSocket.'') (ws c)) = Some w"
    and "w < length (sockets (say (Console_log ''All images completed successfully. Disconnecting WebSocket.'') (ws c)))"
    by (simp_all add: say_def)
  from disconnect_closes_normally [OF this]
  show "close_calls (sockets (ws (completion_effect imgs c)) ! w) =
      close_calls (sockets (ws c) ! w) @ [Some (1000, ''Manual disconnect'')]"
    by (simp add: eq) (simp add: say_def)
qed

theorem completion_disconnects_once_witness:
  "0 < expectedImageCount \<lparr>expectedImageCount = 1, ws = open_client\<rparr> \<and>
   expectedImageCount \<lparr>expectedImageCount = 1, ws = open_client\<rparr>
     \<le> int (succeededCount (images one_done)) \<and>
   expectedImageCount (completion_effect (images one_done)
     \<lparr>expectedImageCount = 1, ws = open_client\<rparr>) = 0 \<and>
   close_calls (sockets (ws (completion_effect (images one_done)
     \<lparr>expectedImageCount = 1, ws = open_client\<rparr>)) ! 0) = [Some (1000, ''Manual disconnect'')] \<and>
   live_sockets (ws (completion_effect (images one_done)
     \<lparr>expectedImageCount = 1, ws = open_client\<rparr>)) = []"
  using completion_disconnects_once
    [of "\<lparr>expectedImageCount = 1, ws = open_client\<rparr>" "images one_done" "images one_done" 0]
  by (simp add: open_client_def one_done_def mk_image_def succeededCount_def run_defs)

end
